theory Spec2Isabelle
  imports Main "HOL-Library.Sublist"
begin

section \<open>Data model\<close>

text \<open>
  The program \<^verbatim>\<open>main.py\<close> reads a YAML document with the keys \<^verbatim>\<open>profile_name\<close> and
  \<^verbatim>\<open>rewrites\<close>, looks the profile up at the provider and reconciles every configured
  rewrite against the rewrites fetched once from the provider.

  The dictionaries of the source become records. A configured rewrite has the keys
  \<^verbatim>\<open>name\<close> and \<^verbatim>\<open>content\<close>; a profile of the provider the keys \<^verbatim>\<open>id\<close> and \<^verbatim>\<open>name\<close>; a
  rewrite of the provider the keys \<^verbatim>\<open>id\<close>, \<^verbatim>\<open>name\<close> and \<^verbatim>\<open>content\<close>. Python compares the
  names with \<^verbatim>\<open>==\<close> on \<^verbatim>\<open>str\<close>, which is equality of character sequences: equality on
  \<^typ>\<open>string\<close>.
\<close>

record rewrite =
  rewrite_name :: string
  rewrite_content :: string

record profile =
  p_id :: string
  p_name :: string

record existing_rewrite =
  existing_id :: string
  existing_name :: string
  existing_content :: string

text \<open>
  \<^verbatim>\<open>config.get("profile_name")\<close> is \<^verbatim>\<open>None\<close> when the key is absent;
  \<^verbatim>\<open>config.get("rewrites", [])\<close> is the empty list when the key is absent.
\<close>

record config =
  cfg_profile_name :: "string option"
  cfg_rewrites :: "rewrite list"

text \<open>What opening and parsing the file named by \<^verbatim>\<open>--config\<close> gives (lines 48 to 59).\<close>

datatype load_result =
    FileNotFoundError
  | YAMLError string
  | OtherException string
  | Loaded config

text \<open>
  The inputs of a run that do not come from the provider: the outcome of loading the
  configuration file and the value of \<^verbatim>\<open>os.getenv("NEXTDNS_API_KEY")\<close>.
\<close>

record environment =
  load_config :: load_result
  api_key :: "string option"

section \<open>The API client\<close>

text \<open>
  The four requests the program sends. \<^verbatim>\<open>GET_profiles\<close> is \<^verbatim>\<open>nextdns.get_profiles()\<close>;
  the others are the calls of \<^verbatim>\<open>nextdns._http_request\<close> with the verbs \<^verbatim>\<open>GET\<close>,
  \<^verbatim>\<open>DELETE\<close> and \<^verbatim>\<open>POST\<close> on
  \<^verbatim>\<open>https://api.nextdns.io/profiles/{profile_id}/rewrites[/{rewrite_id}]\<close>; the arguments
  are the profile id, the rewrite id and the posted rewrite.
\<close>

datatype call =
    GET_profiles
  | GET_rewrites string
  | DELETE_rewrite string string
  | POST_rewrite string rewrite



text \<open>
  The client is outside the program. It is a parameter of the model: every request takes
  the state \<open>'w\<close> of the outside world and returns either \<open>Inl msg\<close>, an \<^verbatim>\<open>ApiError e\<close>
  with \<^verbatim>\<open>str(e) = msg\<close>, or \<open>Inr v\<close>, the parsed body, together with the next state of
  the world. Bodies are taken to have the shape the program reads them with: a list of
  profiles, a list of rewrites, and for \<^verbatim>\<open>POST\<close> the \<^verbatim>\<open>id\<close> of the created rewrite. The
  body of a \<^verbatim>\<open>DELETE\<close> is never read. \<^verbatim>\<open>ApiError\<close> is the only exception the program
  catches around a request, and the only one modelled; building the session and the
  client (lines 81 and 82) is taken to succeed and is not part of the recorded requests.
\<close>

record 'w nextdns =
  get_profiles :: "'w \<Rightarrow> (string + profile list) \<times> 'w"
  get_rewrites :: "string \<Rightarrow> 'w \<Rightarrow> (string + existing_rewrite list) \<times> 'w"
  delete_rewrite :: "string \<Rightarrow> string \<Rightarrow> 'w \<Rightarrow> (string + unit) \<times> 'w"
  post_rewrite :: "string \<Rightarrow> rewrite \<Rightarrow> 'w \<Rightarrow> (string + string) \<times> 'w"

section \<open>The program\<close>

text \<open>
  Every \<^verbatim>\<open>logging.error(...); exit(1)\<close> of the source is one constructor, carrying the
  text of the caught exception where the message has one.
\<close>

datatype error =
    ConfigFileNotFound
  | ConfigParseError string
  | ConfigLoadError string
  | ApiKeyNotSet
  | ProfileNameNotInConfig
  | NoRewritesInConfig
  | GetProfilesError string
  | ProfileNotFound string
  | GetRewritesError string
  | DeleteError string
  | CreateError string

text \<open>
  A run ends with \<open>None\<close> (the interpreter leaves \<^verbatim>\<open>main\<close>, status 0) or with
  \<open>Some e\<close> (\<^verbatim>\<open>exit(1)\<close>). Each part of the program returns its outcome, the requests it
  has sent, in order, and the state of the world after them.
\<close>

type_synonym 'w run = "error option \<times> call list \<times> 'w"

definition result_of :: "'w run \<Rightarrow> error option" where
  "result_of r = fst r"

definition calls_of :: "'w run \<Rightarrow> call list" where
  "calls_of r = fst (snd r)"

definition world_of :: "'w run \<Rightarrow> 'w" where
  "world_of r = snd (snd r)"

definition exit_code :: "'w run \<Rightarrow> nat" where
  "exit_code r = (case result_of r of None \<Rightarrow> 0 | Some e \<Rightarrow> 1)"

text \<open>
  \<^verbatim>\<open>create_rewrite\<close> (lines 11 to 34): one \<^verbatim>\<open>POST\<close>; an \<^verbatim>\<open>ApiError\<close> is raised again with
  a prefixed message.
\<close>

definition create_rewrite ::
  "'w nextdns \<Rightarrow> string \<Rightarrow> rewrite \<Rightarrow> 'w \<Rightarrow> (string + string) \<times> 'w" where
  "create_rewrite nextdns profile_id rw w =
     (case post_rewrite nextdns profile_id rw w of
        (Inl e, w') \<Rightarrow> (Inl (''Error creating NextDNS rewrite: '' @ e), w')
      | (Inr response_id, w') \<Rightarrow> (Inr response_id, w'))"

text \<open>
  The two \<^verbatim>\<open>try\<close> blocks around \<^verbatim>\<open>create_rewrite\<close> (lines 136 to 145 and 152 to 159):
  an \<^verbatim>\<open>ApiError\<close> ends the run.
\<close>

definition try_create :: "'w nextdns \<Rightarrow> string \<Rightarrow> rewrite \<Rightarrow> 'w \<Rightarrow> 'w run" where
  "try_create nextdns profile_id rw w =
     (case create_rewrite nextdns profile_id rw w of
        (Inl e, w') \<Rightarrow> (Some (CreateError e), [POST_rewrite profile_id rw], w')
      | (Inr rewrite_id, w') \<Rightarrow> (None, [POST_rewrite profile_id rw], w'))"

text \<open>
  The \<^verbatim>\<open>try\<close> block around the \<^verbatim>\<open>DELETE\<close> (lines 123 to 134): an \<^verbatim>\<open>ApiError\<close> whose text
  is \<^verbatim>\<open>Error code: 204\<close> is logged as a deletion, any other one ends the run.
\<close>

definition try_delete :: "'w nextdns \<Rightarrow> string \<Rightarrow> string \<Rightarrow> 'w \<Rightarrow> 'w run" where
  "try_delete nextdns profile_id rid w =
     (case delete_rewrite nextdns profile_id rid w of
        (Inr u, w') \<Rightarrow> (None, [DELETE_rewrite profile_id rid], w')
      | (Inl e, w') \<Rightarrow>
          (if e = ''Error code: 204'' then (None, [DELETE_rewrite profile_id rid], w')
           else (Some (DeleteError e), [DELETE_rewrite profile_id rid], w')))"

text \<open>
  The inner \<^verbatim>\<open>for ... else\<close> loop (lines 116 to 159) for one configured rewrite: the
  fetched rewrites are scanned in order; at the first one with the same name the loop
  deletes it, creates the configured one and breaks; when the list is exhausted the
  \<^verbatim>\<open>else\<close> branch creates the configured rewrite.
\<close>

fun reconcile_rewrite ::
  "'w nextdns \<Rightarrow> string \<Rightarrow> rewrite \<Rightarrow> existing_rewrite list \<Rightarrow> 'w \<Rightarrow> 'w run" where
  "reconcile_rewrite nextdns profile_id rw [] w = try_create nextdns profile_id rw w"
| "reconcile_rewrite nextdns profile_id rw (existing # rest) w =
     (if existing_name existing = rewrite_name rw then
        (case try_delete nextdns profile_id (existing_id existing) w of
           (Some e, cs, w1) \<Rightarrow> (Some e, cs, w1)
         | (None, cs, w1) \<Rightarrow>
             (case try_create nextdns profile_id rw w1 of
                (r, cs', w2) \<Rightarrow> (r, cs @ cs', w2)))
      else reconcile_rewrite nextdns profile_id rw rest w)"

text \<open>
  The outer loop (line 115) over the configured rewrites, in configuration order, always
  against the list fetched before the loop. \<^verbatim>\<open>exit(1)\<close> inside a step ends the loop.
\<close>

fun reconcile ::
  "'w nextdns \<Rightarrow> string \<Rightarrow> rewrite list \<Rightarrow> existing_rewrite list \<Rightarrow> 'w \<Rightarrow> 'w run" where
  "reconcile nextdns profile_id [] existing_rewrites w = (None, [], w)"
| "reconcile nextdns profile_id (rw # rewrites) existing_rewrites w =
     (case reconcile_rewrite nextdns profile_id rw existing_rewrites w of
        (Some e, cs, w1) \<Rightarrow> (Some e, cs, w1)
      | (None, cs, w1) \<Rightarrow>
          (case reconcile nextdns profile_id rewrites existing_rewrites w1 of
             (r, cs', w2) \<Rightarrow> (r, cs @ cs', w2)))"

text \<open>
  Lines 47 to 79: the configuration is loaded, then the API key, the profile name and the
  rewrites are checked, in this order. \<^verbatim>\<open>not x\<close> holds of \<^verbatim>\<open>None\<close>, of the empty string
  and of the empty list.
\<close>

definition load_settings :: "environment \<Rightarrow> error + (string \<times> rewrite list)" where
  "load_settings env =
     (case load_config env of
        FileNotFoundError \<Rightarrow> Inl ConfigFileNotFound
      | YAMLError e \<Rightarrow> Inl (ConfigParseError e)
      | OtherException e \<Rightarrow> Inl (ConfigLoadError e)
      | Loaded config \<Rightarrow>
          (if api_key env = None \<or> api_key env = Some [] then Inl ApiKeyNotSet
           else
             (case cfg_profile_name config of
                None \<Rightarrow> Inl ProfileNameNotInConfig
              | Some profile_name \<Rightarrow>
                  (if profile_name = [] then Inl ProfileNameNotInConfig
                   else if cfg_rewrites config = [] then Inl NoRewritesInConfig
                   else Inr (profile_name, cfg_rewrites config)))))"

text \<open>
  Lines 92 to 94: \<^verbatim>\<open>next((profile for profile in profiles if profile["name"] == profile_name), None)\<close>.
\<close>

definition find_profile :: "profile list \<Rightarrow> string \<Rightarrow> profile option" where
  "find_profile profiles profile_name = find (\<lambda>profile. p_name profile = profile_name) profiles"

text \<open>
  Lines 84 to 113: the profiles are fetched, the profile is looked up by name, and the
  rewrites of that profile are fetched.
\<close>

definition fetch_remote ::
  "'w nextdns \<Rightarrow> string \<Rightarrow> 'w \<Rightarrow> (error + (profile \<times> existing_rewrite list)) \<times> call list \<times> 'w" where
  "fetch_remote nextdns profile_name w =
     (case get_profiles nextdns w of
        (Inl e, w1) \<Rightarrow> (Inl (GetProfilesError e), [GET_profiles], w1)
      | (Inr profiles, w1) \<Rightarrow>
          (case find_profile profiles profile_name of
             None \<Rightarrow> (Inl (ProfileNotFound profile_name), [GET_profiles], w1)
           | Some profile \<Rightarrow>
               (case get_rewrites nextdns (p_id profile) w1 of
                  (Inl e, w2) \<Rightarrow>
                    (Inl (GetRewritesError e), [GET_profiles, GET_rewrites (p_id profile)], w2)
                | (Inr existing_rewrites, w2) \<Rightarrow>
                    (Inr (profile, existing_rewrites),
                     [GET_profiles, GET_rewrites (p_id profile)], w2))))"

text \<open>\<^verbatim>\<open>main\<close> (lines 40 to 159).\<close>

definition main :: "'w nextdns \<Rightarrow> environment \<Rightarrow> 'w \<Rightarrow> 'w run" where
  "main nextdns env w =
     (case load_settings env of
        Inl e \<Rightarrow> (Some e, [], w)
      | Inr (profile_name, rewrites) \<Rightarrow>
          (case fetch_remote nextdns profile_name w of
             (Inl e, cs, w1) \<Rightarrow> (Some e, cs, w1)
           | (Inr (profile, existing_rewrites), cs, w1) \<Rightarrow>
               (case reconcile nextdns (p_id profile) rewrites existing_rewrites w1 of
                  (r, cs', w2) \<Rightarrow> (r, cs @ cs', w2))))"

section \<open>A provider for concrete runs\<close>

text \<open>
  A small provider to run the program against: it keeps the profiles, the rewrites of
  every profile in creation order, and the ids it will hand out. A \<^verbatim>\<open>DELETE\<close> of a
  rewrite it holds removes it and answers with \<open>delete_reply\<close> (the source's comment says
  that the client reports a deletion as the error \<^verbatim>\<open>Error code: 204\<close>); a \<^verbatim>\<open>DELETE\<close> of an
  unknown rewrite is the error \<^verbatim>\<open>Error code: 404\<close>.
\<close>

record remote =
  remote_profiles :: "profile list"
  remote_rewrites :: "(string \<times> existing_rewrite) list"
  fresh_ids :: "string list"
  delete_reply :: "string + unit"

definition provider :: "remote nextdns" where
  "provider =
     \<lparr> get_profiles = (\<lambda>w. (Inr (remote_profiles w), w)),
       get_rewrites = (\<lambda>pid w. (Inr (map snd (filter (\<lambda>pe. fst pe = pid) (remote_rewrites w))), w)),
       delete_rewrite = (\<lambda>pid rid w.
         if (pid, rid) \<in> set (map (\<lambda>pe. (fst pe, existing_id (snd pe))) (remote_rewrites w))
         then (delete_reply w,
               w\<lparr>remote_rewrites :=
                   filter (\<lambda>pe. \<not> (fst pe = pid \<and> existing_id (snd pe) = rid)) (remote_rewrites w)\<rparr>)
         else (Inl ''Error code: 404'', w)),
       post_rewrite = (\<lambda>pid rw w.
         case fresh_ids w of
           [] \<Rightarrow> (Inl ''Error code: 500'', w)
         | i # ids \<Rightarrow>
             (Inr i,
              w\<lparr>remote_rewrites := remote_rewrites w @
                   [(pid, \<lparr>existing_id = i, existing_name = rewrite_name rw,
                           existing_content = rewrite_content rw\<rparr>)],
                fresh_ids := ids\<rparr>)) \<rparr>"

definition home :: profile where
  "home = \<lparr>p_id = ''p1'', p_name = ''home''\<rparr>"

definition router :: rewrite where
  "router = \<lparr>rewrite_name = ''router.lan'', rewrite_content = ''10.0.0.1''\<rparr>"

definition r9 :: existing_rewrite where
  "r9 = \<lparr>existing_id = ''r9'', existing_name = ''router.lan'', existing_content = ''10.0.0.9''\<rparr>"

definition env_home :: "rewrite list \<Rightarrow> environment" where
  "env_home rws =
     \<lparr>load_config = Loaded \<lparr>cfg_profile_name = Some ''home'', cfg_rewrites = rws\<rparr>,
      api_key = Some ''key''\<rparr>"

definition world :: "profile list \<Rightarrow> existing_rewrite list \<Rightarrow> string + unit \<Rightarrow> remote" where
  "world ps rs reply =
     \<lparr>remote_profiles = ps, remote_rewrites = map (\<lambda>e. (''p1'', e)) rs,
      fresh_ids = [''n1'', ''n2'', ''n3''], delete_reply = reply\<rparr>"

section \<open>Vocabulary of the statements\<close>

text \<open>
  The fetched rewrite a configured rewrite is matched with: the first one, in the order
  of the fetched list, that has the same name.
\<close>

definition first_match :: "rewrite \<Rightarrow> existing_rewrite list \<Rightarrow> existing_rewrite option" where
  "first_match rw existing_rewrites =
     find (\<lambda>existing. existing_name existing = rewrite_name rw) existing_rewrites"

text \<open>
  The two outcomes of a \<^verbatim>\<open>DELETE\<close> after which the program goes on: the request returns,
  or it raises an \<^verbatim>\<open>ApiError\<close> whose text is \<^verbatim>\<open>Error code: 204\<close>.
\<close>

fun delete_recognised :: "string + unit \<Rightarrow> bool" where
  "delete_recognised (Inr u) = True"
| "delete_recognised (Inl e) = (e = ''Error code: 204'')"


section \<open>Basic facts\<close>

lemma calls_of_simp [simp]: "calls_of (r, cs, w) = cs"
  by (simp add: calls_of_def)

lemma result_of_simp [simp]: "result_of (r, cs, w) = r"
  by (simp add: result_of_def)

lemma world_of_simp [simp]: "world_of (r, cs, w) = w"
  by (simp add: world_of_def)

lemma exit_code_simps [simp]: "exit_code (None, cs, w) = 0" "exit_code (Some e, cs, w) = 1"
  by (simp_all add: exit_code_def)

lemma calls_try_create [simp]: "calls_of (try_create api pid rw w) = [POST_rewrite pid rw]"
  by (simp add: try_create_def split: prod.splits sum.splits)

lemma calls_try_delete [simp]: "calls_of (try_delete api pid rid w) = [DELETE_rewrite pid rid]"
  by (simp add: try_delete_def split: prod.splits sum.splits)

lemma try_delete_cases:
  "try_delete api pid rid w =
     (if delete_recognised (fst (delete_rewrite api pid rid w))
      then (None, [DELETE_rewrite pid rid], snd (delete_rewrite api pid rid w))
      else (Some (DeleteError (projl (fst (delete_rewrite api pid rid w)))),
            [DELETE_rewrite pid rid], snd (delete_rewrite api pid rid w)))"
  by (simp add: try_delete_def split: prod.splits sum.splits)

subsection \<open>The inner loop finds the first match\<close>


lemma reconcile_rewrite_match:
  "first_match rw ex = Some e \<Longrightarrow>
   reconcile_rewrite api pid rw ex w =
     (case try_delete api pid (existing_id e) w of
        (Some err, cs, w1) \<Rightarrow> (Some err, cs, w1)
      | (None, cs, w1) \<Rightarrow>
          (case try_create api pid rw w1 of (r, cs', w2) \<Rightarrow> (r, cs @ cs', w2)))"
  by (induction ex) (simp_all add: first_match_def split: if_splits)

lemma reconcile_rewrite_match_ok:
  assumes "first_match rw ex = Some e"
    and "delete_recognised (fst (delete_rewrite api pid (existing_id e) w))"
  shows "reconcile_rewrite api pid rw ex w =
     (case try_create api pid rw (snd (delete_rewrite api pid (existing_id e) w)) of
        (r, cs, w2) \<Rightarrow> (r, DELETE_rewrite pid (existing_id e) # cs, w2))"
  using assms by (simp add: reconcile_rewrite_match try_delete_cases)

lemma reconcile_rewrite_match_fatal:
  assumes "first_match rw ex = Some e"
    and "delete_rewrite api pid (existing_id e) w = (Inl msg, w1)"
    and "msg \<noteq> ''Error code: 204''"
  shows "reconcile_rewrite api pid rw ex w =
     (Some (DeleteError msg), [DELETE_rewrite pid (existing_id e)], w1)"
  using assms by (simp add: reconcile_rewrite_match try_delete_cases)


lemma first_match_None_iff:
  "(first_match rw ex = None) = (\<forall>x\<in>set ex. existing_name x \<noteq> rewrite_name rw)"
  by (auto simp: first_match_def find_None_iff)

subsection \<open>The requests of the loops\<close>





lemma reconcile_append:
  "reconcile api pid (xs @ ys) ex w =
     (case reconcile api pid xs ex w of
        (Some e, cs, w1) \<Rightarrow> (Some e, cs, w1)
      | (None, cs, w1) \<Rightarrow>
          (case reconcile api pid ys ex w1 of (r, cs', w2) \<Rightarrow> (r, cs @ cs', w2)))"
  by (induction xs arbitrary: w) (auto split: prod.splits option.splits)



lemma main_reconcile:
  assumes "load_settings env = Inr (n, rws)"
    and "fetch_remote api n w = (Inr (p, ex), cs, w1)"
  shows "main api env w =
     (case reconcile api (p_id p) rws ex w1 of (r, cs', w2) \<Rightarrow> (r, cs @ cs', w2))"
  using assms by (simp add: main_def)

subsection \<open>One step, and a step inside a run\<close>

lemma calls_match_ok:
  assumes "first_match rw ex = Some e"
    and "delete_recognised (fst (delete_rewrite api pid (existing_id e) w))"
  shows "calls_of (reconcile_rewrite api pid rw ex w) =
     [DELETE_rewrite pid (existing_id e), POST_rewrite pid rw]"
proof -
  obtain r cs w2 where
    tc: "try_create api pid rw (snd (delete_rewrite api pid (existing_id e) w)) = (r, cs, w2)"
    by (cases "try_create api pid rw (snd (delete_rewrite api pid (existing_id e) w))")
  then have "cs = [POST_rewrite pid rw]"
    using calls_try_create [of api pid rw "snd (delete_rewrite api pid (existing_id e) w)"]
    by simp
  with assms tc show ?thesis by (simp add: reconcile_rewrite_match_ok)
qed

lemma result_match_ok:
  assumes "first_match rw ex = Some e"
    and "delete_recognised (fst (delete_rewrite api pid (existing_id e) w))"
  shows "result_of (reconcile_rewrite api pid rw ex w) =
     result_of (try_create api pid rw (snd (delete_rewrite api pid (existing_id e) w)))"
  using assms by (simp add: reconcile_rewrite_match_ok split: prod.splits)

lemma calls_match_any:
  assumes "first_match rw ex = Some e"
  shows "calls_of (reconcile_rewrite api pid rw ex w) =
     (if delete_recognised (fst (delete_rewrite api pid (existing_id e) w))
      then [DELETE_rewrite pid (existing_id e), POST_rewrite pid rw]
      else [DELETE_rewrite pid (existing_id e)])"
proof (cases "delete_recognised (fst (delete_rewrite api pid (existing_id e) w))")
  case True
  with assms show ?thesis by (simp add: calls_match_ok)
next
  case False
  with assms show ?thesis by (simp add: reconcile_rewrite_match try_delete_cases)
qed

lemma main_at_step:
  assumes "load_settings env = Inr (n, pre @ rw # post)"
    and "fetch_remote api n w0 = (Inr (p, ex), cs0, w1)"
    and "reconcile api (p_id p) pre ex w1 = (None, cs1, w)"
  shows "main api env w0 =
     (case reconcile_rewrite api (p_id p) rw ex w of
        (Some e, cs, w2) \<Rightarrow> (Some e, cs0 @ cs1 @ cs, w2)
      | (None, cs, w2) \<Rightarrow>
          (case reconcile api (p_id p) post ex w2 of
             (r, cs', w3) \<Rightarrow> (r, cs0 @ cs1 @ cs @ cs', w3)))"
  using assms
  by (simp add: main_reconcile reconcile_append split: prod.splits option.splits)


lemma load_settings_InrD:
  "load_settings env = Inr (n, rws) \<Longrightarrow> load_config env = Loaded cfg \<Longrightarrow>
     cfg_profile_name cfg = Some n \<and> rws = cfg_rewrites cfg"
  by (auto simp: load_settings_def split: if_splits option.splits)

lemma find_profile_None_iff:
  "(find_profile ps n = None) = (\<forall>q\<in>set ps. p_name q \<noteq> n)"
  by (auto simp: find_profile_def find_None_iff)

lemma fetch_remote_not_found:
  assumes "get_profiles api w = (Inr ps, w1)" and "\<forall>p\<in>set ps. p_name p \<noteq> n"
  shows "fetch_remote api n w = (Inl (ProfileNotFound n), [GET_profiles], w1)"
  using assms by (simp add: fetch_remote_def find_profile_None_iff [symmetric])

lemma main_not_found:
  assumes "load_settings env = Inr (n, rws)"
    and "get_profiles api w = (Inr ps, w1)" and "\<forall>p\<in>set ps. p_name p \<noteq> n"
  shows "main api env w = (Some (ProfileNotFound n), [GET_profiles], w1)"
  using assms(1) fetch_remote_not_found [OF assms(2,3)] by (simp add: main_def)

subsection \<open>Deletions and verbs of a run\<close>











subsection \<open>Profile lookup\<close>

lemma find_profile_Some_iff:
  "(find_profile ps n = Some p) =
     (\<exists>pre post. ps = pre @ p # post \<and> p_name p = n \<and> (\<forall>q\<in>set pre. p_name q \<noteq> n))"
proof (induction ps)
  case Nil
  then show ?case by (simp add: find_profile_def)
next
  case (Cons a ps)
  show ?case
  proof (cases "p_name a = n")
    case True
    have "(\<exists>pre post. a # ps = pre @ p # post \<and> p_name p = n \<and> (\<forall>q\<in>set pre. p_name q \<noteq> n))
            = (a = p)"
    proof
      assume "\<exists>pre post. a # ps = pre @ p # post \<and> p_name p = n \<and> (\<forall>q\<in>set pre. p_name q \<noteq> n)"
      then obtain pre post where
        s: "a # ps = pre @ p # post" and pre: "\<forall>q\<in>set pre. p_name q \<noteq> n" by blast
      show "a = p"
      proof (cases pre)
        case Nil
        with s show ?thesis by simp
      next
        case (Cons b pre')
        with s have "b = a" by simp
        with Cons pre True show ?thesis by simp
      qed
    next
      assume "a = p"
      with True have "a # ps = [] @ p # ps \<and> p_name p = n \<and> (\<forall>q\<in>set []. p_name q \<noteq> n)"
        by simp
      then show "\<exists>pre post. a # ps = pre @ p # post \<and> p_name p = n \<and> (\<forall>q\<in>set pre. p_name q \<noteq> n)"
        by blast
    qed
    with True show ?thesis by (simp add: find_profile_def)
  next
    case False
    have "(\<exists>pre post. a # ps = pre @ p # post \<and> p_name p = n \<and> (\<forall>q\<in>set pre. p_name q \<noteq> n))
        = (\<exists>pre post. ps = pre @ p # post \<and> p_name p = n \<and> (\<forall>q\<in>set pre. p_name q \<noteq> n))"
    proof
      assume "\<exists>pre post. a # ps = pre @ p # post \<and> p_name p = n \<and> (\<forall>q\<in>set pre. p_name q \<noteq> n)"
      then obtain pre post where
        s: "a # ps = pre @ p # post" and n: "p_name p = n"
        and pre: "\<forall>q\<in>set pre. p_name q \<noteq> n" by blast
      show "\<exists>pre post. ps = pre @ p # post \<and> p_name p = n \<and> (\<forall>q\<in>set pre. p_name q \<noteq> n)"
      proof (cases pre)
        case Nil
        with s n False show ?thesis by simp
      next
        case (Cons b pre')
        with s pre n have "ps = pre' @ p # post \<and> p_name p = n \<and> (\<forall>q\<in>set pre'. p_name q \<noteq> n)"
          by simp
        then show ?thesis by blast
      qed
    next
      assume "\<exists>pre post. ps = pre @ p # post \<and> p_name p = n \<and> (\<forall>q\<in>set pre. p_name q \<noteq> n)"
      then obtain pre post where
        "ps = pre @ p # post" "p_name p = n" "\<forall>q\<in>set pre. p_name q \<noteq> n" by blast
      with False have "a # ps = (a # pre) @ p # post \<and> p_name p = n
          \<and> (\<forall>q\<in>set (a # pre). p_name q \<noteq> n)" by simp
      then show "\<exists>pre post. a # ps = pre @ p # post \<and> p_name p = n \<and> (\<forall>q\<in>set pre. p_name q \<noteq> n)"
        by blast
    qed
    with False Cons.IH show ?thesis by (simp add: find_profile_def)
  qed
qed

lemma main_found:
  assumes "load_settings env = Inr (n, rws)"
    and "get_profiles api w = (Inr ps, w1)"
    and "find_profile ps n = Some p"
  shows "main api env w =
     (case get_rewrites api (p_id p) w1 of
        (Inl e, w2) \<Rightarrow> (Some (GetRewritesError e), [GET_profiles, GET_rewrites (p_id p)], w2)
      | (Inr ex, w2) \<Rightarrow>
          (case reconcile api (p_id p) rws ex w2 of
             (r, cs, w3) \<Rightarrow> (r, [GET_profiles, GET_rewrites (p_id p)] @ cs, w3)))"
  using assms by (simp add: main_def fetch_remote_def split: prod.splits sum.splits)

section \<open>The claims\<close>

text \<open>
  C1, as amended. For a configured rewrite whose name is the name of some fetched rewrite,
  the step sends exactly one \<^verbatim>\<open>DELETE\<close>, for the id of the first fetched rewrite with that
  name, and then, provided the \<^verbatim>\<open>DELETE\<close> is recognised as a success (it returns, or raises
  the error \<^verbatim>\<open>Error code: 204\<close>), exactly one \<^verbatim>\<open>POST\<close> with the configured rewrite, the
  \<^verbatim>\<open>DELETE\<close> first; when the \<^verbatim>\<open>DELETE\<close> fails with another error, the \<^verbatim>\<open>DELETE\<close> is the only
  request of the step.
\<close>

theorem matched_rewrite_delete_then_create:
  assumes "first_match rw ex = Some e"
  shows "calls_of (reconcile_rewrite api pid rw ex w) =
     (if delete_recognised (fst (delete_rewrite api pid (existing_id e) w))
      then [DELETE_rewrite pid (existing_id e), POST_rewrite pid rw]
      else [DELETE_rewrite pid (existing_id e)])"
  using assms by (rule calls_match_any)

theorem matched_rewrite_delete_then_create_witness:
  "first_match router [r9] = Some r9 \<and>
   calls_of (reconcile_rewrite provider ''p1'' router [r9]
              (world [home] [r9] (Inl ''Error code: 204'')))
     = [DELETE_rewrite ''p1'' ''r9'', POST_rewrite ''p1'' router]"
proof -
  have m: "first_match router [r9] = Some r9"
    by (simp add: first_match_def r9_def router_def)
  have "delete_recognised (fst (delete_rewrite provider ''p1'' (existing_id r9)
          (world [home] [r9] (Inl ''Error code: 204''))))"
    by (simp add: provider_def world_def r9_def)
  with matched_rewrite_delete_then_create
         [OF m, of provider "''p1''" "world [home] [r9] (Inl ''Error code: 204'')"] m
  show ?thesis by (simp add: r9_def)
qed

text \<open>
  C1 as stated fails: the fetched rewrite \<open>r9\<close> has the name of the configured rewrite,
  the provider answers the \<^verbatim>\<open>DELETE\<close> with the error \<^verbatim>\<open>Error code: 500\<close>, and the step sends
  the \<^verbatim>\<open>DELETE\<close> and no \<^verbatim>\<open>POST\<close>.
\<close>

theorem matched_rewrite_delete_fails_no_create:
  "first_match router [r9] = Some r9 \<and>
   calls_of (reconcile_rewrite provider ''p1'' router [r9]
              (world [home] [r9] (Inl ''Error code: 500'')))
     = [DELETE_rewrite ''p1'' ''r9'']"
  by (simp add: first_match_def r9_def router_def provider_def world_def try_delete_def)



text \<open>
  C3. Take a run that has loaded its settings, fetched the profile and the rewrites, and
  reconciled the configured rewrites before \<open>rw\<close> without error, and let \<open>rw\<close> be matched
  with the fetched rewrite \<open>e\<close>. When the \<^verbatim>\<open>DELETE\<close> of \<open>e\<close> raises the error
  \<^verbatim>\<open>Error code: 204\<close>, the step fails only if the \<^verbatim>\<open>POST\<close> does, and the requests of the run go
  on with the \<^verbatim>\<open>POST\<close> of \<open>rw\<close> right after the \<^verbatim>\<open>DELETE\<close>. When it raises any other error, the
  run ends with exit status 1 and the \<^verbatim>\<open>DELETE\<close> is its last request: no \<^verbatim>\<open>POST\<close> of \<open>rw\<close> is
  sent.
\<close>

theorem delete_status_decides_run:
  assumes "load_settings env = Inr (n, pre @ rw # post)"
    and "fetch_remote api n w0 = (Inr (p, ex), cs0, w1)"
    and "reconcile api (p_id p) pre ex w1 = (None, cs1, w)"
    and "first_match rw ex = Some e"
    and "delete_rewrite api (p_id p) (existing_id e) w = (reply, w')"
  shows "(reply = Inl ''Error code: 204'' \<longrightarrow>
            result_of (reconcile_rewrite api (p_id p) rw ex w) = result_of (try_create api (p_id p) rw w')
          \<and> prefix (cs0 @ cs1 @ [DELETE_rewrite (p_id p) (existing_id e), POST_rewrite (p_id p) rw])
               (calls_of (main api env w0)))
       \<and> (\<forall>msg. reply = Inl msg \<and> msg \<noteq> ''Error code: 204'' \<longrightarrow>
            main api env w0 =
              (Some (DeleteError msg), cs0 @ cs1 @ [DELETE_rewrite (p_id p) (existing_id e)], w')
          \<and> exit_code (main api env w0) = 1)"
proof (intro conjI impI allI)
  assume r: "reply = Inl ''Error code: 204''"
  with assms(5) have ok: "delete_recognised (fst (delete_rewrite api (p_id p) (existing_id e) w))"
    by simp
  from result_match_ok [OF assms(4) ok] assms(5)
  show "result_of (reconcile_rewrite api (p_id p) rw ex w) = result_of (try_create api (p_id p) rw w')"
    by simp
  from calls_match_ok [OF assms(4) ok]
  have cs: "calls_of (reconcile_rewrite api (p_id p) rw ex w) =
     [DELETE_rewrite (p_id p) (existing_id e), POST_rewrite (p_id p) rw]" .
  obtain r2 cs2 w2 where step: "reconcile_rewrite api (p_id p) rw ex w = (r2, cs2, w2)"
    by (cases "reconcile_rewrite api (p_id p) rw ex w")
  with cs have cs2: "cs2 = [DELETE_rewrite (p_id p) (existing_id e), POST_rewrite (p_id p) rw]"
    by simp
  show "prefix (cs0 @ cs1 @ [DELETE_rewrite (p_id p) (existing_id e), POST_rewrite (p_id p) rw])
               (calls_of (main api env w0))"
    using main_at_step [OF assms(1-3)] step cs2
    by (simp split: option.splits prod.splits)
next
  fix msg
  assume "reply = Inl msg \<and> msg \<noteq> ''Error code: 204''"
  with assms(5) have d: "delete_rewrite api (p_id p) (existing_id e) w = (Inl msg, w')"
    and m: "msg \<noteq> ''Error code: 204''" by simp_all
  from reconcile_rewrite_match_fatal [OF assms(4) d m] main_at_step [OF assms(1-3)]
  show main: "main api env w0 =
      (Some (DeleteError msg), cs0 @ cs1 @ [DELETE_rewrite (p_id p) (existing_id e)], w')"
    by simp
  then show "exit_code (main api env w0) = 1" by simp
qed

theorem delete_status_decides_run_witness:
  "prefix ([GET_profiles, GET_rewrites ''p1''] @ [] @
           [DELETE_rewrite ''p1'' ''r9'', POST_rewrite ''p1'' router])
     (calls_of (main provider (env_home [router]) (world [home] [r9] (Inl ''Error code: 204''))))
   \<and> main provider (env_home [router]) (world [home] [r9] (Inl ''Error code: 500''))
       = (Some (DeleteError ''Error code: 500''),
          [GET_profiles, GET_rewrites ''p1''] @ [] @ [DELETE_rewrite ''p1'' ''r9''],
          world [home] [] (Inl ''Error code: 500''))
   \<and> exit_code (main provider (env_home [router]) (world [home] [r9] (Inl ''Error code: 500''))) = 1"
proof -
  have ls: "load_settings (env_home [router]) = Inr (''home'', [] @ router # [])"
    by (simp add: load_settings_def env_home_def)
  have fr: "fetch_remote provider ''home'' (world [home] [r9] reply)
              = (Inr (home, [r9]), [GET_profiles, GET_rewrites ''p1''], world [home] [r9] reply)"
    for reply
    by (simp add: fetch_remote_def provider_def world_def find_profile_def home_def)
  have pre: "reconcile provider (p_id home) [] [r9] (world [home] [r9] reply)
               = (None, [], world [home] [r9] reply)" for reply
    by simp
  have m: "first_match router [r9] = Some r9"
    by (simp add: first_match_def r9_def router_def)
  have d: "delete_rewrite provider (p_id home) (existing_id r9) (world [home] [r9] reply)
             = (reply, world [home] [] reply)" for reply
    by (simp add: provider_def world_def home_def r9_def)
  from delete_status_decides_run [OF ls fr pre m d, of "Inl ''Error code: 204''"]
  have a: "prefix ([GET_profiles, GET_rewrites ''p1''] @ [] @
           [DELETE_rewrite ''p1'' ''r9'', POST_rewrite ''p1'' router])
     (calls_of (main provider (env_home [router]) (world [home] [r9] (Inl ''Error code: 204''))))"
    by (simp add: home_def r9_def)
  from delete_status_decides_run [OF ls fr pre m d, of "Inl ''Error code: 500''"]
  have b: "main provider (env_home [router]) (world [home] [r9] (Inl ''Error code: 500''))
       = (Some (DeleteError ''Error code: 500''),
          [GET_profiles, GET_rewrites ''p1''] @ [] @ [DELETE_rewrite ''p1'' ''r9''],
          world [home] [] (Inl ''Error code: 500''))
   \<and> exit_code (main provider (env_home [router]) (world [home] [r9] (Inl ''Error code: 500''))) = 1"
    by (simp add: home_def r9_def)
  from a b show ?thesis by blast
qed

text \<open>
  C4. When the profile name of the configuration is the name of no profile in the list the
  provider returns, the run ends with exit status 1 and sends no request other than the
  fetch of the profiles, so no \<^verbatim>\<open>POST\<close> and no \<^verbatim>\<open>DELETE\<close>; and when the settings are complete
  (API key set, profile name and rewrites not empty), so that the run reaches the lookup,
  its error is the profile-lookup error.
\<close>

theorem absent_profile_aborts_without_mutation:
  assumes "load_config env = Loaded cfg"
    and "cfg_profile_name cfg = Some n"
    and "get_profiles api w = (Inr ps, w1)"
    and "\<forall>p\<in>set ps. p_name p \<noteq> n"
  shows "exit_code (main api env w) = 1
       \<and> (\<forall>c\<in>set (calls_of (main api env w)). c = GET_profiles)
       \<and> (load_settings env = Inr (n, cfg_rewrites cfg) \<longrightarrow>
            main api env w = (Some (ProfileNotFound n), [GET_profiles], w1))"
proof (cases "load_settings env")
  case (Inl e)
  then have "main api env w = (Some e, [], w)" by (simp add: main_def)
  with Inl show ?thesis by simp
next
  case (Inr s)
  obtain n' rws where s: "s = (n', rws)" by (cases s)
  with Inr load_settings_InrD [of env n' rws cfg] assms(1,2)
  have "n' = n" "rws = cfg_rewrites cfg" by simp_all
  with Inr s have ls: "load_settings env = Inr (n, cfg_rewrites cfg)" by simp
  from main_not_found [OF ls assms(3,4)] show ?thesis by simp
qed

theorem absent_profile_aborts_without_mutation_witness:
  "load_config (env_home [router]) = Loaded \<lparr>cfg_profile_name = Some ''home'', cfg_rewrites = [router]\<rparr>
   \<and> p_name \<lparr>p_id = ''p2'', p_name = ''Home''\<rparr> \<noteq> ''home''
   \<and> load_settings (env_home [router]) = Inr (''home'', [router])
   \<and> main provider (env_home [router])
        (world [\<lparr>p_id = ''p2'', p_name = ''Home''\<rparr>] [r9] (Inl ''Error code: 204''))
       = (Some (ProfileNotFound ''home''), [GET_profiles],
          world [\<lparr>p_id = ''p2'', p_name = ''Home''\<rparr>] [r9] (Inl ''Error code: 204''))
   \<and> exit_code (main provider (env_home [router])
        (world [\<lparr>p_id = ''p2'', p_name = ''Home''\<rparr>] [r9] (Inl ''Error code: 204''))) = 1"
proof -
  have lc: "load_config (env_home [router])
              = Loaded \<lparr>cfg_profile_name = Some ''home'', cfg_rewrites = [router]\<rparr>"
    by (simp add: env_home_def)
  have n: "cfg_profile_name \<lparr>cfg_profile_name = Some ''home'', cfg_rewrites = [router]\<rparr>
             = Some ''home''"
    by simp
  have gp: "get_profiles provider
              (world [\<lparr>p_id = ''p2'', p_name = ''Home''\<rparr>] [r9] (Inl ''Error code: 204''))
            = (Inr [\<lparr>p_id = ''p2'', p_name = ''Home''\<rparr>],
               world [\<lparr>p_id = ''p2'', p_name = ''Home''\<rparr>] [r9] (Inl ''Error code: 204''))"
    by (simp add: provider_def world_def)
  have no: "\<forall>p\<in>set [\<lparr>p_id = ''p2'', p_name = ''Home''\<rparr>]. p_name p \<noteq> ''home''"
    by simp
  have ls: "load_settings (env_home [router]) = Inr (''home'', [router])"
    by (simp add: load_settings_def env_home_def)
  from absent_profile_aborts_without_mutation [OF lc n gp no] lc no ls
  show ?thesis by simp
qed

text \<open>
  C5, as amended. At least one profile of the fetched list must have the configured name:
  with none the run ends with the profile-lookup error and exit status 1. With one or more,
  also with two or more, the lookup does not fail: the run goes on with the first of them
  in list order, fetches its rewrites and reconciles against them.
\<close>

theorem profile_lookup_first_match_continues:
  assumes "load_settings env = Inr (n, rws)"
    and "get_profiles api w = (Inr ps, w1)"
  shows "((\<forall>q\<in>set ps. p_name q \<noteq> n) \<longrightarrow>
            main api env w = (Some (ProfileNotFound n), [GET_profiles], w1)
          \<and> exit_code (main api env w) = 1)
       \<and> ((\<exists>q\<in>set ps. p_name q = n) \<longrightarrow>
            (\<exists>p. find_profile ps n = Some p
               \<and> main api env w =
                   (case get_rewrites api (p_id p) w1 of
                      (Inl e, w2) \<Rightarrow>
                        (Some (GetRewritesError e), [GET_profiles, GET_rewrites (p_id p)], w2)
                    | (Inr ex, w2) \<Rightarrow>
                        (case reconcile api (p_id p) rws ex w2 of
                           (r, cs, w3) \<Rightarrow> (r, [GET_profiles, GET_rewrites (p_id p)] @ cs, w3)))))"
proof (intro conjI impI)
  assume no: "\<forall>q\<in>set ps. p_name q \<noteq> n"
  from main_not_found [OF assms no]
  show "main api env w = (Some (ProfileNotFound n), [GET_profiles], w1)" .
  then show "exit_code (main api env w) = 1" by simp
next
  assume "\<exists>q\<in>set ps. p_name q = n"
  then have "find_profile ps n \<noteq> None" by (simp add: find_profile_None_iff)
  then obtain p where p: "find_profile ps n = Some p" by blast
  from main_found [OF assms p] p
  show "\<exists>p. find_profile ps n = Some p
               \<and> main api env w =
                   (case get_rewrites api (p_id p) w1 of
                      (Inl e, w2) \<Rightarrow>
                        (Some (GetRewritesError e), [GET_profiles, GET_rewrites (p_id p)], w2)
                    | (Inr ex, w2) \<Rightarrow>
                        (case reconcile api (p_id p) rws ex w2 of
                           (r, cs, w3) \<Rightarrow> (r, [GET_profiles, GET_rewrites (p_id p)] @ cs, w3)))"
    by blast
qed

theorem profile_lookup_first_match_continues_witness:
  "main provider (env_home [router]) (world [\<lparr>p_id = ''p2'', p_name = ''Home''\<rparr>] [] (Inl ''Error code: 204''))
     = (Some (ProfileNotFound ''home''), [GET_profiles], world [\<lparr>p_id = ''p2'', p_name = ''Home''\<rparr>] [] (Inl ''Error code: 204''))
   \<and> find_profile [home, \<lparr>p_id = ''p2'', p_name = ''home''\<rparr>] ''home'' = Some home
   \<and> calls_of (main provider (env_home [router]) (world [home, \<lparr>p_id = ''p2'', p_name = ''home''\<rparr>] [] (Inl ''Error code: 204'')))
       = [GET_profiles, GET_rewrites ''p1'', POST_rewrite ''p1'' router]"
proof -
  have ls: "load_settings (env_home [router]) = Inr (''home'', [router])"
    by (simp add: load_settings_def env_home_def)
  have gp: "get_profiles provider (world ps [] (Inl ''Error code: 204'')) = (Inr ps, world ps [] (Inl ''Error code: 204''))" for ps
    by (simp add: provider_def world_def)
  have no: "\<forall>q\<in>set [\<lparr>p_id = ''p2'', p_name = ''Home''\<rparr>]. p_name q \<noteq> ''home''"
    by simp
  from profile_lookup_first_match_continues [OF ls gp, of "[\<lparr>p_id = ''p2'', p_name = ''Home''\<rparr>]", THEN conjunct1] no
  have a: "main provider (env_home [router]) (world [\<lparr>p_id = ''p2'', p_name = ''Home''\<rparr>] [] (Inl ''Error code: 204''))
     = (Some (ProfileNotFound ''home''), [GET_profiles], world [\<lparr>p_id = ''p2'', p_name = ''Home''\<rparr>] [] (Inl ''Error code: 204''))"
    by blast
  have yes: "\<exists>q\<in>set [home, \<lparr>p_id = ''p2'', p_name = ''home''\<rparr>]. p_name q = ''home''"
    by (simp add: home_def)
  have f: "find_profile [home, \<lparr>p_id = ''p2'', p_name = ''home''\<rparr>] ''home'' = Some home"
    by (simp add: find_profile_def home_def)
  have gr: "get_rewrites provider (p_id home) (world [home, \<lparr>p_id = ''p2'', p_name = ''home''\<rparr>] [] (Inl ''Error code: 204''))
              = (Inr [], world [home, \<lparr>p_id = ''p2'', p_name = ''home''\<rparr>] [] (Inl ''Error code: 204''))"
    by (simp add: provider_def world_def)
  have rc: "calls_of (reconcile provider (p_id home) [router] [] (world [home, \<lparr>p_id = ''p2'', p_name = ''home''\<rparr>] [] (Inl ''Error code: 204'')))
              = [POST_rewrite ''p1'' router]"
    by (simp add: home_def split: prod.splits option.splits)
       (metis calls_try_create calls_of_simp)
  from profile_lookup_first_match_continues [OF ls gp, of "[home, \<lparr>p_id = ''p2'', p_name = ''home''\<rparr>]", THEN conjunct2] yes f
  have "main provider (env_home [router]) (world [home, \<lparr>p_id = ''p2'', p_name = ''home''\<rparr>] [] (Inl ''Error code: 204''))
          = (case reconcile provider (p_id home) [router] [] (world [home, \<lparr>p_id = ''p2'', p_name = ''home''\<rparr>] [] (Inl ''Error code: 204'')) of
               (r, cs, w3) \<Rightarrow> (r, [GET_profiles, GET_rewrites (p_id home)] @ cs, w3))"
    by (simp add: gr del: reconcile.simps)
  with rc have b: "calls_of (main provider (env_home [router]) (world [home, \<lparr>p_id = ''p2'', p_name = ''home''\<rparr>] [] (Inl ''Error code: 204'')))
       = [GET_profiles, GET_rewrites ''p1'', POST_rewrite ''p1'' router]"
    by (simp add: home_def del: reconcile.simps split: prod.splits)
  from a f b show ?thesis by blast
qed

text \<open>
  C5 as stated fails: two profiles of the fetched list have the configured name, and the
  run is not aborted; it creates the rewrite in the first of them and ends with exit
  status 0.
\<close>

theorem two_matching_profiles_not_fatal:
  "p_name home = ''home'' \<and> p_name \<lparr>p_id = ''p2'', p_name = ''home''\<rparr> = ''home''
   \<and> home \<noteq> \<lparr>p_id = ''p2'', p_name = ''home''\<rparr>
   \<and> calls_of (main provider (env_home [router])
        (world [home, \<lparr>p_id = ''p2'', p_name = ''home''\<rparr>] [] (Inl ''Error code: 204'')))
      = [GET_profiles, GET_rewrites ''p1'', POST_rewrite ''p1'' router]
   \<and> exit_code (main provider (env_home [router])
        (world [home, \<lparr>p_id = ''p2'', p_name = ''home''\<rparr>] [] (Inl ''Error code: 204''))) = 0"
  by code_simp

text \<open>
  C6. The lookup returns a profile exactly when that profile stands in the fetched list
  with the configured name and no profile before it has that name; it returns nothing
  exactly when no profile of the list has that name. Names are compared by equality of
  strings, so \<^verbatim>\<open>Home\<close> is not \<^verbatim>\<open>home\<close>.
\<close>

theorem find_profile_first_exact:
  "((find_profile ps n = Some p) =
      (\<exists>pre post. ps = pre @ p # post \<and> p_name p = n \<and> (\<forall>q\<in>set pre. p_name q \<noteq> n)))
   \<and> ((find_profile ps n = None) = (\<forall>q\<in>set ps. p_name q \<noteq> n))"
  by (simp add: find_profile_Some_iff find_profile_None_iff)

theorem find_profile_first_exact_witness:
  "find_profile [\<lparr>p_id = ''p2'', p_name = ''Home''\<rparr>, \<lparr>p_id = ''p1'', p_name = ''home''\<rparr>,
                 \<lparr>p_id = ''p3'', p_name = ''home''\<rparr>] ''home''
     = Some \<lparr>p_id = ''p1'', p_name = ''home''\<rparr>
   \<and> find_profile [\<lparr>p_id = ''p2'', p_name = ''Home''\<rparr>] ''home'' = None"
proof -
  have "[\<lparr>p_id = ''p2'', p_name = ''Home''\<rparr>, \<lparr>p_id = ''p1'', p_name = ''home''\<rparr>,
         \<lparr>p_id = ''p3'', p_name = ''home''\<rparr>]
        = [\<lparr>p_id = ''p2'', p_name = ''Home''\<rparr>] @ \<lparr>p_id = ''p1'', p_name = ''home''\<rparr>
            # [\<lparr>p_id = ''p3'', p_name = ''home''\<rparr>]
        \<and> p_name \<lparr>p_id = ''p1'', p_name = ''home''\<rparr> = ''home''
        \<and> (\<forall>q\<in>set [\<lparr>p_id = ''p2'', p_name = ''Home''\<rparr>]. p_name q \<noteq> ''home'')"
    by simp
  then have ex: "\<exists>pre post.
      [\<lparr>p_id = ''p2'', p_name = ''Home''\<rparr>, \<lparr>p_id = ''p1'', p_name = ''home''\<rparr>,
       \<lparr>p_id = ''p3'', p_name = ''home''\<rparr>] = pre @ \<lparr>p_id = ''p1'', p_name = ''home''\<rparr> # post
      \<and> p_name \<lparr>p_id = ''p1'', p_name = ''home''\<rparr> = ''home''
      \<and> (\<forall>q\<in>set pre. p_name q \<noteq> ''home'')"
    by blast
  have no: "\<forall>q\<in>set [\<lparr>p_id = ''p2'', p_name = ''Home''\<rparr>]. p_name q \<noteq> ''home''"
    by simp
  from find_profile_first_exact [of "[\<lparr>p_id = ''p2'', p_name = ''Home''\<rparr>, \<lparr>p_id = ''p1'', p_name = ''home''\<rparr>,
                \<lparr>p_id = ''p3'', p_name = ''home''\<rparr>]" "''home''" "\<lparr>p_id = ''p1'', p_name = ''home''\<rparr>"] ex
  have a: "find_profile [\<lparr>p_id = ''p2'', p_name = ''Home''\<rparr>, \<lparr>p_id = ''p1'', p_name = ''home''\<rparr>,
                 \<lparr>p_id = ''p3'', p_name = ''home''\<rparr>] ''home''
     = Some \<lparr>p_id = ''p1'', p_name = ''home''\<rparr>"
    by blast
  from find_profile_first_exact [of "[\<lparr>p_id = ''p2'', p_name = ''Home''\<rparr>]" "''home''" home] no
  have b: "find_profile [\<lparr>p_id = ''p2'', p_name = ''Home''\<rparr>] ''home'' = None"
    by blast
  from a b show ?thesis by blast
qed









text \<open>
  C10. For a configured rewrite matched with the fetched rewrite \<open>e\<close>, the \<^verbatim>\<open>POST\<close> is sent
  exactly when the \<^verbatim>\<open>DELETE\<close> of \<open>e\<close> returns without raising or raises an \<^verbatim>\<open>ApiError\<close> whose
  text is exactly \<^verbatim>\<open>Error code: 204\<close>; in these two cases the step continues with the
  \<^verbatim>\<open>POST\<close>; an \<^verbatim>\<open>ApiError\<close> with any other text ends the loop at the \<^verbatim>\<open>DELETE\<close> with the
  deletion error, whatever rewrites are still to be reconciled.
\<close>

theorem delete_recognised_only_two_ways:
  assumes "first_match rw ex = Some e"
    and "delete_rewrite api pid (existing_id e) w = (reply, w')"
  shows "((POST_rewrite pid rw \<in> set (calls_of (reconcile_rewrite api pid rw ex w)))
            = (reply = Inr () \<or> reply = Inl ''Error code: 204''))
       \<and> (reply = Inr () \<or> reply = Inl ''Error code: 204'' \<longrightarrow>
            reconcile_rewrite api pid rw ex w =
              (case try_create api pid rw w' of
                 (r, cs, w2) \<Rightarrow> (r, DELETE_rewrite pid (existing_id e) # cs, w2)))
       \<and> (\<forall>msg. reply = Inl msg \<and> msg \<noteq> ''Error code: 204'' \<longrightarrow>
            (\<forall>rws. reconcile api pid (rw # rws) ex w =
               (Some (DeleteError msg), [DELETE_rewrite pid (existing_id e)], w')))"
proof -
  have rec: "delete_recognised reply = (reply = Inr () \<or> reply = Inl ''Error code: 204'')"
    by (cases reply) simp_all
  from assms(2) have fst: "fst (delete_rewrite api pid (existing_id e) w) = reply"
    and snd: "snd (delete_rewrite api pid (existing_id e) w) = w'" by simp_all
  have a: "(POST_rewrite pid rw \<in> set (calls_of (reconcile_rewrite api pid rw ex w)))
            = (reply = Inr () \<or> reply = Inl ''Error code: 204'')"
    using calls_match_any [OF assms(1), of api pid w] fst rec by simp
  have b: "reply = Inr () \<or> reply = Inl ''Error code: 204'' \<longrightarrow>
            reconcile_rewrite api pid rw ex w =
              (case try_create api pid rw w' of
                 (r, cs, w2) \<Rightarrow> (r, DELETE_rewrite pid (existing_id e) # cs, w2))"
    using reconcile_rewrite_match_ok [OF assms(1), of api pid w] fst snd rec by simp
  have c: "\<forall>msg. reply = Inl msg \<and> msg \<noteq> ''Error code: 204'' \<longrightarrow>
            (\<forall>rws. reconcile api pid (rw # rws) ex w =
               (Some (DeleteError msg), [DELETE_rewrite pid (existing_id e)], w'))"
  proof (intro allI impI)
    fix msg rws
    assume "reply = Inl msg \<and> msg \<noteq> ''Error code: 204''"
    with assms(2) have "delete_rewrite api pid (existing_id e) w = (Inl msg, w')"
      and "msg \<noteq> ''Error code: 204''" by simp_all
    from reconcile_rewrite_match_fatal [OF assms(1) this]
    show "reconcile api pid (rw # rws) ex w =
               (Some (DeleteError msg), [DELETE_rewrite pid (existing_id e)], w')" by simp
  qed
  from a b c show ?thesis by blast
qed

theorem delete_recognised_only_two_ways_witness:
  "POST_rewrite ''p1'' router \<in> set (calls_of (reconcile_rewrite provider ''p1'' router [r9]
       (world [home] [r9] (Inr ()))))
   \<and> POST_rewrite ''p1'' router \<in> set (calls_of (reconcile_rewrite provider ''p1'' router [r9]
       (world [home] [r9] (Inl ''Error code: 204''))))
   \<and> POST_rewrite ''p1'' router \<notin> set (calls_of (reconcile_rewrite provider ''p1'' router [r9]
       (world [home] [r9] (Inl ''Error code: 2040''))))
   \<and> reconcile provider ''p1'' [router, router] [r9] (world [home] [r9] (Inl ''Error code: 2040''))
       = (Some (DeleteError ''Error code: 2040''), [DELETE_rewrite ''p1'' ''r9''],
          world [home] [] (Inl ''Error code: 2040''))"
proof -
  have m: "first_match router [r9] = Some r9"
    by (simp add: first_match_def r9_def router_def)
  have d: "delete_rewrite provider ''p1'' (existing_id r9) (world [home] [r9] reply)
             = (reply, world [home] [] reply)" for reply
    by (simp add: provider_def world_def r9_def)
  from delete_recognised_only_two_ways [OF m d, of "Inr ()", THEN conjunct1]
  have a: "POST_rewrite ''p1'' router \<in> set (calls_of (reconcile_rewrite provider ''p1'' router [r9]
       (world [home] [r9] (Inr ()))))"
    by (simp del: reconcile_rewrite.simps)
  from delete_recognised_only_two_ways [OF m d, of "Inl ''Error code: 204''", THEN conjunct1]
  have b: "POST_rewrite ''p1'' router \<in> set (calls_of (reconcile_rewrite provider ''p1'' router [r9]
       (world [home] [r9] (Inl ''Error code: 204''))))"
    by (simp del: reconcile_rewrite.simps)
  from delete_recognised_only_two_ways [OF m d, of "Inl ''Error code: 2040''"]
  have c: "POST_rewrite ''p1'' router \<notin> set (calls_of (reconcile_rewrite provider ''p1'' router [r9]
       (world [home] [r9] (Inl ''Error code: 2040''))))
     \<and> reconcile provider ''p1'' [router, router] [r9] (world [home] [r9] (Inl ''Error code: 2040''))
       = (Some (DeleteError ''Error code: 2040''), [DELETE_rewrite ''p1'' ''r9''],
          world [home] [] (Inl ''Error code: 2040''))"
    by (simp add: r9_def del: reconcile_rewrite.simps reconcile.simps)
  from a b c show ?thesis by blast
qed

end
